theory Spec2Isabelle
  imports Main "HOL-Library.AList" "HOL-Library.Sublist" "HOL-Library.Word"
begin

section \<open>EdgeStreamableHTTPTransport: data model\<close>

text \<open>
  The class \<^verbatim>\<open>EdgeStreamableHTTPTransport\<close> of
  \<^verbatim>\<open>packages/stremeable-http-transport/src/index.ts\<close> is embedded as a record
  of its fields together with one function per method, each taking the transport and
  returning the updated one.

  JavaScript \<^verbatim>\<open>Map\<close>s keep insertion order and \<^verbatim>\<open>set\<close> on an existing key keeps the
  key's position: they are association lists with \<open>AList.update\<close>, \<open>AList.delete\<close> and
  \<open>map_of\<close>. A JavaScript string counts UTF-16 code units in \<^verbatim>\<open>.length\<close>; the request body,
  the only string whose length the code reads, is a list of 16-bit code units. All other
  strings are only compared, searched and tested for emptiness, and are HOL strings.
\<close>

type_synonym StreamId = string
type_synonym EventId = string
type_synonym AuthInfo = string
type_synonym code_unit = "16 word"

datatype RequestId = IdString string | IdNumber int

text \<open>
  The JSON-RPC message schema and its predicates belong to the MCP SDK, outside the
  repository. A message that passed \<^verbatim>\<open>JSONRPCMessageSchema.parse\<close> is one of four
  shapes; \<open>params\<close> and \<open>result\<close> are kept as opaque JSON text.
\<close>

datatype JSONRPCMessage =
    JSONRPCRequest RequestId string string
  | JSONRPCNotification string string
  | JSONRPCResponse RequestId string
  | JSONRPCError RequestId int string

fun isJSONRPCRequest :: "JSONRPCMessage \<Rightarrow> bool" where
  "isJSONRPCRequest (JSONRPCRequest _ _ _) = True"
| "isJSONRPCRequest _ = False"

fun isJSONRPCResponse :: "JSONRPCMessage \<Rightarrow> bool" where
  "isJSONRPCResponse (JSONRPCResponse _ _) = True"
| "isJSONRPCResponse _ = False"

fun isJSONRPCError :: "JSONRPCMessage \<Rightarrow> bool" where
  "isJSONRPCError (JSONRPCError _ _ _) = True"
| "isJSONRPCError _ = False"

text \<open>
  Modelled from the spec: \<^verbatim>\<open>isInitializeRequest\<close> of the SDK is not part of the sources;
  the spec calls an initialize request ``a JSON-RPC request whose method marks the start of
  a session''.
\<close>

fun isInitializeRequest :: "JSONRPCMessage \<Rightarrow> bool" where
  "isInitializeRequest (JSONRPCRequest _ m _) = (m = ''initialize'')"
| "isInitializeRequest _ = False"

text \<open>\<^verbatim>\<open>message.id\<close>: a notification has none.\<close>

fun message_id :: "JSONRPCMessage \<Rightarrow> RequestId option" where
  "message_id (JSONRPCRequest i _ _) = Some i"
| "message_id (JSONRPCNotification _ _) = None"
| "message_id (JSONRPCResponse i _) = Some i"
| "message_id (JSONRPCError i _ _) = Some i"

text \<open>
  \<^verbatim>\<open>String(requestId)\<close>: a string id is itself, a number id is printed in decimal
  (as JavaScript does for every integer below \<open>10\<^sup>2\<^sup>1\<close> in absolute value).
\<close>

fun string_of_nat :: "nat \<Rightarrow> string" where
  "string_of_nat n =
     (if n < 10 then [''0123456789'' ! n]
      else string_of_nat (n div 10) @ [''0123456789'' ! (n mod 10)])"

declare string_of_nat.simps [simp del]

fun String_RequestId :: "RequestId \<Rightarrow> string" where
  "String_RequestId (IdString s) = s"
| "String_RequestId (IdNumber n) =
     (if n < 0 then CHR ''-'' # string_of_nat (nat (- n)) else string_of_nat (nat n))"

text \<open>\<^verbatim>\<open>haystack.includes(needle)\<close>\<close>

fun str_includes :: "string \<Rightarrow> string \<Rightarrow> bool" where
  "str_includes [] needle = (needle = [])"
| "str_includes (c # cs) needle = (prefix needle (c # cs) \<or> str_includes cs needle)"

text \<open>
  One chunk enqueued by \<^verbatim>\<open>writeSSEEvent\<close>: the text
  \<^verbatim>\<open>event: message\n\<close>, \<^verbatim>\<open>id: <eventId>\n\<close> when the first component is present, and
  \<^verbatim>\<open>data: <JSON.stringify(message)>\n\n\<close>.
\<close>

datatype chunk = SSEEvent "EventId option" JSONRPCMessage

text \<open>A \<^verbatim>\<open>ReadableStreamDefaultController\<close>: whether it is closed, and what was enqueued.\<close>

record controller =
  closed :: bool
  chunks :: "chunk list"

text \<open>
  The body argument of \<^verbatim>\<open>new Response\<close>: literal text, the \<^verbatim>\<open>JSON.stringify\<close> of
  \<^verbatim>\<open>{jsonrpc: "2.0", error: {code, message, data?}, id: null}\<close>, of one buffered
  response, of an array of them (\<open>None\<close> is \<^verbatim>\<open>undefined\<close>), or the readable side of the
  controller with the given address.
\<close>

datatype BodyInit =
    Text string
  | JsonRpcError int string "string option"
  | Json "JSONRPCMessage option"
  | JsonArray "JSONRPCMessage option list"
  | Readable nat

record response =
  status :: nat
  headers :: "(string \<times> string) list"
  body :: BodyInit

text \<open>\<open>header r name\<close> is \<^verbatim>\<open>request.headers.get(name)\<close>; \<open>None\<close> is \<^verbatim>\<open>null\<close>.\<close>

record request =
  httpMethod :: string
  header :: "string \<Rightarrow> string option"

text \<open>
  What \<^verbatim>\<open>handleRequest\<close> hands back: a response, or (JSON response mode) the promise
  created for the POST, which a later \<^verbatim>\<open>send\<close> resolves.
\<close>

datatype http_result = Returned response | Promised nat

text \<open>Invocations of the host's callbacks, in order.\<close>

datatype event =
    OnMessage JSONRPCMessage "AuthInfo option"
  | OnClose
  | OnError string
  | OnSessionInitialized string

text \<open>
  The fields of the class (the leading underscore of the private ones dropped). The event
  store is external: \<open>eventStore\<close> says whether one was configured, its answers come with
  each call (see \<open>env\<close>). \<open>onmessage m a = Some e\<close> means that the host's callback throws a
  value whose \<^verbatim>\<open>String(...)\<close> is \<open>e\<close>; the other callbacks and the session id generator
  are assumed to return, and no callback calls back into the transport while it runs.
  \<open>controllers\<close> and \<open>promises\<close> are the objects the maps refer to, by address; a promise
  is \<open>None\<close> while pending. \<open>timers\<close> holds the dispatches queued by \<^verbatim>\<open>setTimeout\<close>.
\<close>

record transport =
  sessionIdGenerator :: "(unit \<Rightarrow> string) option"
  started :: bool
  streamMapping :: "(StreamId \<times> nat) list"
  requestToStreamMapping :: "(RequestId \<times> StreamId) list"
  requestResponseMap :: "(RequestId \<times> JSONRPCMessage) list"
  initialized :: bool
  enableJsonResponse :: bool
  eventStore :: bool
  onsessioninitialized :: bool
  pendingResponses :: "(StreamId \<times> nat) list"
  sessionId :: "string option"
  onclose :: bool
  onerror :: bool
  onmessage :: "(JSONRPCMessage \<Rightarrow> AuthInfo option \<Rightarrow> string option) option"
  controllers :: "controller list"
  promises :: "response option list"
  timers :: "(JSONRPCMessage list \<times> AuthInfo option) list"
  events :: "event list"

text \<open>
  What the world outside the class answers during one call: \<^verbatim>\<open>JSON.parse\<close> followed by
  \<^verbatim>\<open>JSONRPCMessageSchema.parse\<close> on every element (a single message wrapped into a list;
  \<open>Inl c\<close> when either throws, \<open>c\<close> the \<^verbatim>\<open>String\<close> of the thrown value),
  \<^verbatim>\<open>crypto.randomUUID()\<close>, and the two operations of the event store:
  \<open>storeEvent\<close> gives an event id or rejects, \<open>replayEventsAfter\<close> gives the events it
  passes to \<^verbatim>\<open>send\<close> and then a stream id or a rejection.
\<close>

record env =
  JSON_parse :: "code_unit list \<Rightarrow> string + JSONRPCMessage list"
  randomUUID :: StreamId
  storeEvent :: "StreamId \<Rightarrow> JSONRPCMessage \<Rightarrow> string + EventId"
  replayEventsAfter :: "EventId \<Rightarrow> (EventId \<times> JSONRPCMessage) list \<times> (string + StreamId)"

section \<open>Operations\<close>

definition MAXIMUM_MESSAGE_SIZE :: nat where
  "MAXIMUM_MESSAGE_SIZE = 4 * 1024 * 1024"

definition standaloneSseStreamId :: StreamId where
  "standaloneSseStreamId = ''_GET_stream''"

text \<open>The constructor.\<close>

definition new_transport ::
  "(unit \<Rightarrow> string) option \<Rightarrow> bool \<Rightarrow> bool option \<Rightarrow> bool \<Rightarrow> transport" where
  "new_transport gen onsessioninit enableJson store =
     \<lparr> sessionIdGenerator = gen, started = False, streamMapping = [],
       requestToStreamMapping = [], requestResponseMap = [], initialized = False,
       enableJsonResponse = (case enableJson of None \<Rightarrow> False | Some b \<Rightarrow> b),
       eventStore = store, onsessioninitialized = onsessioninit, pendingResponses = [],
       sessionId = None, onclose = False, onerror = False, onmessage = None,
       controllers = [], promises = [], timers = [], events = [] \<rparr>"

definition start :: "transport \<Rightarrow> (string + unit) \<times> transport" where
  "start s =
     (if started s then (Inl ''Transport already started'', s)
      else (Inr (), s\<lparr>started := True\<rparr>))"

text \<open>
  The error responses all have the form
  \<^verbatim>\<open>new Response(JSON.stringify({jsonrpc, error, id: null}), {status, headers})\<close>.
\<close>

definition error_response :: "nat \<Rightarrow> int \<Rightarrow> string \<Rightarrow> string option \<Rightarrow> response" where
  "error_response st code msg dat =
     \<lparr> status = st, headers = [(''Content-Type'', ''application/json'')],
       body = JsonRpcError code msg dat \<rparr>"

definition invoke_onerror :: "string \<Rightarrow> transport \<Rightarrow> transport" where
  "invoke_onerror e s = (if onerror s then s\<lparr>events := events s @ [OnError e]\<rparr> else s)"

text \<open>\<^verbatim>\<open>controller.enqueue\<close> and \<^verbatim>\<open>controller.close\<close> throw on a closed controller.\<close>

definition is_open :: "nat \<Rightarrow> transport \<Rightarrow> bool" where
  "is_open c s = (c < length (controllers s) \<and> \<not> closed (controllers s ! c))"

definition writeSSEEvent ::
  "nat \<Rightarrow> JSONRPCMessage \<Rightarrow> EventId option \<Rightarrow> transport \<Rightarrow> transport" where
  "writeSSEEvent c message eventId s =
     (let eventData =
            SSEEvent (if eventId = None \<or> eventId = Some [] then None else eventId) message
      in if is_open c s
         then s\<lparr>controllers :=
                  (controllers s)[c := (controllers s ! c)
                     \<lparr>chunks := chunks (controllers s ! c) @ [eventData]\<rparr>]\<rparr>
         else invoke_onerror ''TypeError'' s)"

text \<open>\<^verbatim>\<open>try { controller.close() } catch (_error) { }\<close>\<close>

definition close_controller :: "nat \<Rightarrow> transport \<Rightarrow> transport" where
  "close_controller c s =
     (if is_open c s
      then s\<lparr>controllers := (controllers s)[c := (controllers s ! c)\<lparr>closed := True\<rparr>]\<rparr>
      else s)"

definition createSSEStream :: "transport \<Rightarrow> nat \<times> transport" where
  "createSSEStream s =
     (length (controllers s),
      s\<lparr>controllers := controllers s @ [\<lparr>closed = False, chunks = []\<rparr>]\<rparr>)"

text \<open>
  The \<^verbatim>\<open>cancel()\<close> hook that \<^verbatim>\<open>createSSEStream\<close> gives to every readable it creates.
\<close>

definition cancel_hook :: "transport \<Rightarrow> transport" where
  "cancel_hook s = s\<lparr>streamMapping := AList.delete standaloneSseStreamId (streamMapping s)\<rparr>"

text \<open>
  The consumer cancels the readable of controller \<open>c\<close>: a stream that is still readable
  becomes closed and its cancel hook runs; cancelling a closed stream does nothing.
\<close>

definition cancel :: "nat \<Rightarrow> transport \<Rightarrow> transport" where
  "cancel c s = (if is_open c s then cancel_hook (close_controller c s) else s)"

definition session_header :: "transport \<Rightarrow> (string \<times> string) list" where
  "session_header s =
     (case sessionId s of None \<Rightarrow> [] | Some i \<Rightarrow> [(''mcp-session-id'', i)])"

definition validateSession :: "transport \<Rightarrow> request \<Rightarrow> response option" where
  "validateSession s req =
     (if sessionIdGenerator s = None then None
      else if \<not> initialized s
      then Some (error_response 400 (- 32000) ''Bad Request: Server not initialized'' None)
      else
        let sid = header req ''mcp-session-id'' in
        if sid = None \<or> sid = Some []
        then Some (error_response 400 (- 32000)
                     ''Bad Request: Mcp-Session-Id header is required'' None)
        else if sid \<noteq> sessionId s
        then Some (error_response 404 (- 32001) ''Session not found'' None)
        else None)"

definition close :: "transport \<Rightarrow> transport" where
  "close s =
     (let s1 = fold close_controller (map snd (streamMapping s)) s;
          s2 = s1\<lparr>streamMapping := [], requestResponseMap := [], pendingResponses := []\<rparr>
      in if onclose s2 then s2\<lparr>events := events s2 @ [OnClose]\<rparr> else s2)"

fun replay_send :: "nat \<Rightarrow> (EventId \<times> JSONRPCMessage) list \<Rightarrow> transport \<Rightarrow> transport" where
  "replay_send c [] s = s"
| "replay_send c ((eventId, message) # es) s =
     replay_send c es (writeSSEEvent c message (Some eventId) s)"

definition replayEvents :: "env \<Rightarrow> EventId \<Rightarrow> transport \<Rightarrow> http_result \<times> transport" where
  "replayEvents e lastEventId s =
     (if \<not> eventStore s then (Returned \<lparr>status = 400, headers = [], body = Text []\<rparr>, s)
      else
        let (c, s1) = createSSEStream s;
            hs = [(''Content-Type'', ''text/event-stream''),
                  (''Cache-Control'', ''no-cache, no-transform''),
                  (''Connection'', ''keep-alive'')] @ session_header s1;
            (sent, outcome) = replayEventsAfter e lastEventId;
            s2 = replay_send c sent s1
        in case outcome of
             Inr streamId \<Rightarrow>
               (Returned \<lparr>status = 200, headers = hs, body = Readable c\<rparr>,
                s2\<lparr>streamMapping := AList.update streamId c (streamMapping s2)\<rparr>)
           | Inl err \<Rightarrow>
               (Returned \<lparr>status = 500, headers = [], body = Text ''Internal Server Error''\<rparr>,
                invoke_onerror err s2))"

definition handleGetRequest :: "env \<Rightarrow> request \<Rightarrow> transport \<Rightarrow> http_result \<times> transport" where
  "handleGetRequest e req s =
     (let acceptHeader = header req ''accept'' in
      if \<not> (case acceptHeader of None \<Rightarrow> False | Some a \<Rightarrow> str_includes a ''text/event-stream'')
      then (Returned (error_response 406 (- 32000)
                        ''Not Acceptable: Client must accept text/event-stream'' None), s)
      else case validateSession s req of
        Some validationResponse \<Rightarrow> (Returned validationResponse, s)
      | None \<Rightarrow>
          let lastEventId = header req ''last-event-id'' in
          if eventStore s \<and> lastEventId \<noteq> None \<and> lastEventId \<noteq> Some []
          then replayEvents e (case lastEventId of Some l \<Rightarrow> l | None \<Rightarrow> []) s
          else if map_of (streamMapping s) standaloneSseStreamId \<noteq> None
          then (Returned (error_response 409 (- 32000)
                            ''Conflict: Only one SSE stream is allowed per session'' None), s)
          else
            let (c, s1) = createSSEStream s;
                s2 = s1\<lparr>streamMapping :=
                          AList.update standaloneSseStreamId c (streamMapping s1)\<rparr>;
                hs = [(''Content-Type'', ''text/event-stream''),
                      (''Cache-Control'', ''no-cache, no-transform''),
                      (''Connection'', ''keep-alive'')] @ session_header s2
            in (Returned \<lparr>status = 200, headers = hs, body = Readable c\<rparr>, s2))"

definition handleUnsupportedRequest :: response where
  "handleUnsupportedRequest =
     \<lparr> status = 405,
       headers = [(''Allow'', ''GET, POST, DELETE''), (''Content-Type'', ''application/json'')],
       body = JsonRpcError (- 32000) ''Method not allowed.'' None \<rparr>"

definition handleDeleteRequest :: "request \<Rightarrow> transport \<Rightarrow> http_result \<times> transport" where
  "handleDeleteRequest req s =
     (case validateSession s req of
        Some validationResponse \<Rightarrow> (Returned validationResponse, s)
      | None \<Rightarrow> (Returned \<lparr>status = 200, headers = [], body = Text []\<rparr>, close s))"

text \<open>
  \<^verbatim>\<open>for (const message of messages) { this.onmessage?.(message, { authInfo }) }\<close>:
  the first component is the value thrown by the callback, if it threw.
\<close>

fun dispatch ::
  "AuthInfo option \<Rightarrow> JSONRPCMessage list \<Rightarrow> transport \<Rightarrow> string option \<times> transport" where
  "dispatch a [] s = (None, s)"
| "dispatch a (m # ms) s =
     (case onmessage s of
        None \<Rightarrow> dispatch a ms s
      | Some f \<Rightarrow>
          let s1 = s\<lparr>events := events s @ [OnMessage m a]\<rparr> in
          (case f m a of
             Some err \<Rightarrow> (Some err, s1)
           | None \<Rightarrow> dispatch a ms s1))"

text \<open>
  \<^verbatim>\<open>for (const message of messages) if (isJSONRPCRequest(message))
  this._requestToStreamMapping.set(message.id, streamId)\<close>
\<close>

fun storeRequestMapping ::
  "StreamId \<Rightarrow> JSONRPCMessage list \<Rightarrow> (RequestId \<times> StreamId) list
     \<Rightarrow> (RequestId \<times> StreamId) list" where
  "storeRequestMapping streamId [] idx = idx"
| "storeRequestMapping streamId (JSONRPCRequest i _ _ # ms) idx =
     storeRequestMapping streamId ms (AList.update i streamId idx)"
| "storeRequestMapping streamId (_ # ms) idx = storeRequestMapping streamId ms idx"

definition parse_error_response :: "string \<Rightarrow> response" where
  "parse_error_response err = error_response 400 (- 32700) ''Parse error'' (Some err)"

text \<open>Lines 478--549 of the source: the dispatch of a validated payload.\<close>

definition post_dispatch ::
  "env \<Rightarrow> AuthInfo option \<Rightarrow> JSONRPCMessage list \<Rightarrow> transport \<Rightarrow> http_result \<times> transport" where
  "post_dispatch e authInfo messages s =
     (let hasRequests = list_ex isJSONRPCRequest messages in
      if \<not> hasRequests
      then (case dispatch authInfo messages s of
              (None, s1) \<Rightarrow> (Returned \<lparr>status = 202, headers = [], body = Text []\<rparr>, s1)
            | (Some err, s1) \<Rightarrow> (Returned (parse_error_response err), s1))
      else
        let streamId = randomUUID e in
        if \<not> enableJsonResponse s
        then
          let (c, s1) = createSSEStream s;
              s2 = s1\<lparr>streamMapping := AList.update streamId c (streamMapping s1)\<rparr>;
              s3 = s2\<lparr>requestToStreamMapping :=
                        storeRequestMapping streamId messages (requestToStreamMapping s2)\<rparr>;
              hs = [(''Content-Type'', ''text/event-stream''),
                    (''Cache-Control'', ''no-cache''),
                    (''Connection'', ''keep-alive'')] @ session_header s3;
              s4 = s3\<lparr>timers := timers s3 @ [(messages, authInfo)]\<rparr>
          in (Returned \<lparr>status = 200, headers = hs, body = Readable c\<rparr>, s4)
        else
          let s1 = s\<lparr>requestToStreamMapping :=
                       storeRequestMapping streamId messages (requestToStreamMapping s)\<rparr>;
              p = length (promises s1);
              s2 = s1\<lparr>promises := promises s1 @ [None],
                      pendingResponses := AList.update streamId p (pendingResponses s1)\<rparr>;
              s3 = s2\<lparr>timers := timers s2 @ [(messages, authInfo)]\<rparr>
          in (Promised p, s3))"

text \<open>Lines 424--476: the initialize handshake, or the session validation.\<close>

definition post_messages ::
  "env \<Rightarrow> request \<Rightarrow> AuthInfo option \<Rightarrow> JSONRPCMessage list \<Rightarrow> transport
     \<Rightarrow> http_result \<times> transport" where
  "post_messages e req authInfo messages s =
     (let isInitializationRequest = list_ex isInitializeRequest messages in
      if isInitializationRequest
      then
        if initialized s \<and> sessionId s \<noteq> None
        then (Returned (error_response 400 (- 32600)
                          ''Invalid Request: Server already initialized'' None), s)
        else if length messages > 1
        then (Returned (error_response 400 (- 32600)
                          ''Invalid Request: Only one initialization request is allowed'' None), s)
        else
          let s1 = s\<lparr>sessionId := map_option (\<lambda>g. g ()) (sessionIdGenerator s),
                     initialized := True\<rparr>;
              s2 = (case sessionId s1 of
                      None \<Rightarrow> s1
                    | Some i \<Rightarrow>
                        if i \<noteq> [] \<and> onsessioninitialized s1
                        then s1\<lparr>events := events s1 @ [OnSessionInitialized i]\<rparr>
                        else s1)
          in post_dispatch e authInfo messages s2
      else
        case validateSession s req of
          Some validationResponse \<Rightarrow> (Returned validationResponse, s)
        | None \<Rightarrow> post_dispatch e authInfo messages s)"

definition handlePostRequest ::
  "env \<Rightarrow> request \<Rightarrow> code_unit list \<Rightarrow> AuthInfo option \<Rightarrow> transport
     \<Rightarrow> http_result \<times> transport" where
  "handlePostRequest e req bodyText authInfo s =
     (let acceptHeader = header req ''accept'' in
      if \<not> (case acceptHeader of None \<Rightarrow> False | Some a \<Rightarrow> str_includes a ''application/json'')
         \<or> \<not> (case acceptHeader of None \<Rightarrow> False | Some a \<Rightarrow> str_includes a ''text/event-stream'')
      then (Returned (error_response 406 (- 32000)
              ''Not Acceptable: Client must accept both application/json and text/event-stream''
              None), s)
      else
        let contentType = header req ''content-type'' in
        if contentType = None \<or> contentType = Some []
           \<or> \<not> (case contentType of None \<Rightarrow> False | Some c \<Rightarrow> str_includes c ''application/json'')
        then (Returned (error_response 415 (- 32000)
                ''Unsupported Media Type: Content-Type must be application/json'' None), s)
        else if length bodyText > MAXIMUM_MESSAGE_SIZE
        then (Returned (error_response 413 (- 32000) ''Request too large'' None), s)
        else case JSON_parse e bodyText of
          Inl err \<Rightarrow> (Returned (parse_error_response err), s)
        | Inr messages \<Rightarrow> post_messages e req authInfo messages s)"

definition handleRequest ::
  "env \<Rightarrow> request \<Rightarrow> code_unit list \<Rightarrow> AuthInfo option \<Rightarrow> transport
     \<Rightarrow> http_result \<times> transport" where
  "handleRequest e req bodyText authInfo s =
     (if httpMethod req = ''POST'' then handlePostRequest e req bodyText authInfo s
      else if httpMethod req = ''GET'' then handleGetRequest e req s
      else if httpMethod req = ''DELETE'' then handleDeleteRequest req s
      else (Returned handleUnsupportedRequest, s))"

text \<open>Resolving a promise that is already settled does nothing.\<close>

definition resolve :: "nat \<Rightarrow> response \<Rightarrow> transport \<Rightarrow> transport" where
  "resolve p r s =
     (if p < length (promises s) \<and> promises s ! p = None
      then s\<lparr>promises := (promises s)[p := Some r]\<rparr> else s)"

definition relatedIds :: "StreamId \<Rightarrow> transport \<Rightarrow> RequestId list" where
  "relatedIds streamId s =
     map fst (filter (\<lambda>(_, sid). sid = streamId) (requestToStreamMapping s))"

definition cleanup_request :: "RequestId \<Rightarrow> transport \<Rightarrow> transport" where
  "cleanup_request i s =
     s\<lparr>requestResponseMap := AList.delete i (requestResponseMap s),
       requestToStreamMapping := AList.delete i (requestToStreamMapping s)\<rparr>"

text \<open>Lines 722--770: what \<^verbatim>\<open>send\<close> does with a response or an error.\<close>

definition completeStream ::
  "RequestId \<Rightarrow> StreamId \<Rightarrow> nat option \<Rightarrow> JSONRPCMessage \<Rightarrow> transport \<Rightarrow> transport" where
  "completeStream requestId streamId ctrl message s =
     (let s1 = s\<lparr>requestResponseMap := AList.update requestId message (requestResponseMap s)\<rparr>;
          ids = relatedIds streamId s1;
          allResponsesReady = list_all (\<lambda>i. map_of (requestResponseMap s1) i \<noteq> None) ids
      in if allResponsesReady
         then
           let s2 =
                 (if enableJsonResponse s1
                  then (case map_of (pendingResponses s1) streamId of
                          Some pendingResponse \<Rightarrow>
                            let hs = [(''Content-Type'', ''application/json'')] @ session_header s1;
                                responses = map (map_of (requestResponseMap s1)) ids;
                                r = \<lparr> status = 200, headers = hs,
                                      body = (case responses of [x] \<Rightarrow> Json x
                                              | _ \<Rightarrow> JsonArray responses) \<rparr>;
                                s' = resolve pendingResponse r s1
                            in s'\<lparr>pendingResponses :=
                                    AList.delete streamId (pendingResponses s')\<rparr>
                        | None \<Rightarrow> s1)
                  else (case ctrl of Some c \<Rightarrow> close_controller c s1 | None \<Rightarrow> s1));
               s3 = fold cleanup_request ids s2
           in s3\<lparr>streamMapping := AList.delete streamId (streamMapping s3)\<rparr>
         else s1)"

text \<open>
  Lines 711--720: in SSE mode, with a registered controller, the message is written to
  the stream, after the event store (when configured) has given it an event id.
\<close>

definition writeToStream ::
  "env \<Rightarrow> StreamId \<Rightarrow> nat option \<Rightarrow> JSONRPCMessage \<Rightarrow> transport \<Rightarrow> string + transport" where
  "writeToStream e streamId ctrl message s =
     (case ctrl of
        None \<Rightarrow> Inr s
      | Some c \<Rightarrow>
          if \<not> enableJsonResponse s
          then (if eventStore s
                then (case storeEvent e streamId message of
                        Inl err \<Rightarrow> Inl err
                      | Inr eventId \<Rightarrow> Inr (writeSSEEvent c message (Some eventId) s))
                else Inr (writeSSEEvent c message None s))
          else Inr s)"

text \<open>Lines 676--698: no request id, the message goes to the standalone stream.\<close>

definition sendStandalone ::
  "env \<Rightarrow> JSONRPCMessage \<Rightarrow> transport \<Rightarrow> (string + unit) \<times> transport" where
  "sendStandalone e message s =
     (if isJSONRPCResponse message \<or> isJSONRPCError message
      then (Inl (''Cannot send a response on a standalone SSE stream '' @
                 ''unless resuming a previous client request''), s)
      else (case map_of (streamMapping s) standaloneSseStreamId of
              None \<Rightarrow> (Inr (), s)
            | Some standaloneController \<Rightarrow>
                if eventStore s
                then (case storeEvent e standaloneSseStreamId message of
                        Inl err \<Rightarrow> (Inl err, s)
                      | Inr eventId \<Rightarrow>
                          (Inr (), writeSSEEvent standaloneController message (Some eventId) s))
                else (Inr (), writeSSEEvent standaloneController message None s)))"

text \<open>
  Lines 700--771. The value read from the index is tested with \<^verbatim>\<open>!streamId\<close>, which
  also holds of the empty string; the second test of the same variable never fires.
\<close>

definition sendRelated ::
  "env \<Rightarrow> JSONRPCMessage \<Rightarrow> RequestId \<Rightarrow> transport \<Rightarrow> (string + unit) \<times> transport" where
  "sendRelated e message requestId s =
     (let streamId = map_of (requestToStreamMapping s) requestId in
      if streamId = None \<or> streamId = Some []
      then (Inl (''No stream found for request ID: '' @ String_RequestId requestId), s)
      else
        let sid = (case streamId of Some i \<Rightarrow> i | None \<Rightarrow> []);
            ctrl = map_of (streamMapping s) sid
        in (case writeToStream e sid ctrl message s of
              Inl err \<Rightarrow> (Inl err, s)
            | Inr s1 \<Rightarrow>
                if isJSONRPCResponse message \<or> isJSONRPCError message
                then (Inr (), completeStream requestId sid ctrl message s1)
                else (Inr (), s1)))"

definition send ::
  "env \<Rightarrow> JSONRPCMessage \<Rightarrow> RequestId option \<Rightarrow> transport \<Rightarrow> (string + unit) \<times> transport" where
  "send e message relatedRequestId s =
     (let requestId = (if isJSONRPCResponse message \<or> isJSONRPCError message
                       then message_id message else relatedRequestId)
      in case requestId of
           None \<Rightarrow> sendStandalone e message s
         | Some i \<Rightarrow> sendRelated e message i s)"

text \<open>The task queued by \<^verbatim>\<open>setTimeout\<close> runs: an exception of the callback ends it.\<close>

definition run_timer :: "transport \<Rightarrow> transport" where
  "run_timer s =
     (case timers s of
        [] \<Rightarrow> s
      | (messages, authInfo) # ts \<Rightarrow> snd (dispatch authInfo messages (s\<lparr>timers := ts\<rparr>)))"

section \<open>Runs of the transport\<close>

text \<open>
  Everything the host and the clients can do with a transport, one call at a time (the
  event loop runs each call to its end). The host may replace its callbacks at any time.
\<close>

datatype operation =
    Start
  | HandleRequest env request "code_unit list" "AuthInfo option"
  | Send env JSONRPCMessage "RequestId option"
  | Close
  | Cancel nat
  | RunTimer
  | SetOnmessage "(JSONRPCMessage \<Rightarrow> AuthInfo option \<Rightarrow> string option) option"
  | SetOnclose bool
  | SetOnerror bool

fun exec :: "operation \<Rightarrow> transport \<Rightarrow> transport" where
  "exec Start s = snd (start s)"
| "exec (HandleRequest e req bodyText authInfo) s = snd (handleRequest e req bodyText authInfo s)"
| "exec (Send e message relatedRequestId) s = snd (send e message relatedRequestId s)"
| "exec Close s = close s"
| "exec (Cancel c) s = cancel c s"
| "exec RunTimer s = run_timer s"
| "exec (SetOnmessage f) s = s\<lparr>onmessage := f\<rparr>"
| "exec (SetOnclose b) s = s\<lparr>onclose := b\<rparr>"
| "exec (SetOnerror b) s = s\<lparr>onerror := b\<rparr>"

definition run :: "operation list \<Rightarrow> transport \<Rightarrow> transport" where
  "run ops s = fold exec ops s"

text \<open>The states a transport can be in: those some run from a fresh transport ends in.\<close>

definition reachable :: "transport \<Rightarrow> bool" where
  "reachable s =
     (\<exists>gen onsessioninit enableJson store ops.
        s = run ops (new_transport gen onsessioninit enableJson store))"

section \<open>Auxiliary notions and example inputs\<close>

text \<open>
  An environment whose parser answers with the given messages and whose UUID generator
  answers with the given id, and a request with the headers a well-behaved client sends.
\<close>

definition example_env :: "JSONRPCMessage list \<Rightarrow> StreamId \<Rightarrow> env" where
  "example_env msgs uuid =
     \<lparr> JSON_parse = (\<lambda>_. Inr msgs), randomUUID = uuid,
       storeEvent = (\<lambda>_ _. Inr ''e1''),
       replayEventsAfter = (\<lambda>_. ([], Inr ''replay-1'')) \<rparr>"

definition example_request :: "string \<Rightarrow> string option \<Rightarrow> request" where
  "example_request m sid =
     \<lparr> httpMethod = m,
       header = (\<lambda>n. if n = ''accept'' then Some ''application/json, text/event-stream''
                     else if n = ''content-type'' then Some ''application/json''
                     else if n = ''mcp-session-id'' then sid else None) \<rparr>"

definition initialize_request :: JSONRPCMessage where
  "initialize_request = JSONRPCRequest (IdNumber 1) ''initialize'' ''{}''"

definition stateful_transport :: transport where
  "stateful_transport = new_transport (Some (\<lambda>_. ''session-1'')) False None False"

text \<open>A stateful transport in SSE mode after the initialize POST of a client.\<close>

definition initialized_transport :: transport where
  "initialized_transport =
     run [HandleRequest (example_env [initialize_request] ''uuid-1'')
            (example_request ''POST'' None) [] None] stateful_transport"

definition stateless_transport :: transport where
  "stateless_transport = new_transport None False None False"

text \<open>
  A stateless transport in SSE mode with two open streams: the standalone stream of a
  GET (controller 0) and the stream of a POST that carried one request (controller 1).
\<close>

definition two_streams_transport :: transport where
  "two_streams_transport =
     run [HandleRequest (example_env [] ''uuid-0'') (example_request ''GET'' None) [] None,
          HandleRequest (example_env [JSONRPCRequest (IdNumber 2) ''tools/list'' ''{}''] ''uuid-1'')
            (example_request ''POST'' None) [] None]
       stateless_transport"

text \<open>The conditions under which a POST reaches the inspection of its payload.\<close>

definition passes_gates :: "env \<Rightarrow> request \<Rightarrow> code_unit list \<Rightarrow> JSONRPCMessage list \<Rightarrow> bool" where
  "passes_gates e req bodyText messages =
     ((case header req ''accept'' of None \<Rightarrow> False
       | Some a \<Rightarrow> str_includes a ''application/json'' \<and> str_includes a ''text/event-stream'')
      \<and> (case header req ''content-type'' of None \<Rightarrow> False
         | Some c \<Rightarrow> str_includes c ''application/json'')
      \<and> length bodyText \<le> MAXIMUM_MESSAGE_SIZE
      \<and> JSON_parse e bodyText = Inr messages)"

text \<open>
  The error body of the spec, \<^verbatim>\<open>{jsonrpc: "2.0", error: {code, message, data?}, id: null}\<close>
  with one of its four codes, and the success statuses.
\<close>

definition is_error_envelope :: "response \<Rightarrow> bool" where
  "is_error_envelope r =
     (case body r of
        JsonRpcError code _ _ \<Rightarrow>
          code = - 32000 \<or> code = - 32001 \<or> code = - 32600 \<or> code = - 32700
      | _ \<Rightarrow> False)"

definition is_2xx :: "response \<Rightarrow> bool" where
  "is_2xx r = (200 \<le> status r \<and> status r < 300)"

text \<open>A host whose \<^verbatim>\<open>onmessage\<close> throws on the notification \<open>bad\<close>.\<close>

definition throwing_transport :: transport where
  "throwing_transport =
     run [SetOnmessage (Some (\<lambda>m a. if m = JSONRPCNotification ''bad'' ''{}''
                                      then Some ''Error: boom'' else None))]
       stateless_transport"

text \<open>
  A stateless transport with an event store, a GET that resumes after event \<open>e1\<close>, and an
  event store that rejects the replay.
\<close>

definition resumable_transport :: transport where
  "resumable_transport = new_transport None False None True"

definition replay_request :: request where
  "replay_request =
     \<lparr> httpMethod = ''GET'',
       header = (\<lambda>n. if n = ''accept'' then Some ''text/event-stream''
                     else if n = ''last-event-id'' then Some ''e1'' else None) \<rparr>"

definition failing_store_env :: env where
  "failing_store_env =
     \<lparr> JSON_parse = (\<lambda>_. Inr []), randomUUID = ''uuid-3'',
       storeEvent = (\<lambda>_ _. Inl ''Error: store unavailable''),
       replayEventsAfter = (\<lambda>_. ([], Inl ''Error: store unavailable'')) \<rparr>"

text \<open>
  The fields that make up the session and the configuration, a session that is
  established, and a POST that succeeded: a 200, or the promise of a JSON response.
\<close>

definition session_of ::
  "transport \<Rightarrow> (unit \<Rightarrow> string) option \<times> bool \<times> string option \<times> bool \<times> bool" where
  "session_of s =
     (sessionIdGenerator s, initialized s, sessionId s, enableJsonResponse s, eventStore s)"

definition established :: "transport \<Rightarrow> bool" where
  "established s = (initialized s \<and> sessionId s \<noteq> None)"

definition succeeded :: "http_result \<Rightarrow> bool" where
  "succeeded res = (case res of Promised _ \<Rightarrow> True | Returned r \<Rightarrow> status r = 200)"

text \<open>
  The size in bytes of a body as the client sends it, in UTF-8: one to three bytes for a
  code unit, four for a surrogate pair (two for each half). A body of one ASCII letter
  followed by \<open>2\<^sup>2\<^sup>1\<close> times the letter U+00E9.
\<close>

definition utf8_bytes :: "code_unit \<Rightarrow> nat" where
  "utf8_bytes u =
     (if u < 0x80 then 1 else if u < 0x800 then 2
      else if 0xD800 \<le> u \<and> u < 0xE000 then 2 else 3)"

definition utf8_length :: "code_unit list \<Rightarrow> nat" where
  "utf8_length us = sum_list (map utf8_bytes us)"

definition multibyte_body :: "code_unit list" where
  "multibyte_body = 0x61 # replicate 2097152 0xE9"

text \<open>
  The part of a transport that the completion logic depends on, and what every state of
  a run satisfies: in SSE mode no resolver is pending, and every buffered response belongs
  to a request id of the index.
\<close>

definition core_of ::
  "transport \<Rightarrow> bool \<times> (StreamId \<times> nat) list \<times> (RequestId \<times> StreamId) list
     \<times> (RequestId \<times> JSONRPCMessage) list" where
  "core_of s =
     (enableJsonResponse s, pendingResponses s, requestToStreamMapping s, requestResponseMap s)"

definition consistent :: "transport \<Rightarrow> bool" where
  "consistent s =
     ((enableJsonResponse s \<or> pendingResponses s = [])
      \<and> fst ` set (requestResponseMap s) \<subseteq> fst ` set (requestToStreamMapping s))"












section \<open>Facts about the operations and the examples\<close>

lemmas example_defs = example_env_def example_request_def initialize_request_def
  stateful_transport_def new_transport_def

lemmas handler_defs = handleRequest_def handlePostRequest_def post_messages_def
  post_dispatch_def createSSEStream_def session_header_def validateSession_def
  error_response_def parse_error_response_def MAXIMUM_MESSAGE_SIZE_def

lemma initialized_transport_eq:
  "initialized_transport =
     \<lparr> sessionIdGenerator = Some (\<lambda>_. ''session-1''), started = False,
       streamMapping = [(''uuid-1'', 0)],
       requestToStreamMapping = [(IdNumber 1, ''uuid-1'')],
       requestResponseMap = [], initialized = True,
       enableJsonResponse = False, eventStore = False,
       onsessioninitialized = False, pendingResponses = [],
       sessionId = Some ''session-1'', onclose = False, onerror = False,
       onmessage = None, controllers = [\<lparr>closed = False, chunks = []\<rparr>],
       promises = [],
       timers = [([JSONRPCRequest (IdNumber 1) ''initialize'' ''{}''], None)],
       events = [] \<rparr>"
  by (simp add: initialized_transport_def run_def example_defs handler_defs Let_def)

lemma two_streams_transport_eq:
  "two_streams_transport =
     \<lparr> sessionIdGenerator = None, started = False,
       streamMapping = [(''_GET_stream'', 0), (''uuid-1'', 1)],
       requestToStreamMapping = [(IdNumber 2, ''uuid-1'')],
       requestResponseMap = [], initialized = False,
       enableJsonResponse = False, eventStore = False,
       onsessioninitialized = False, pendingResponses = [],
       sessionId = None, onclose = False, onerror = False,
       onmessage = None,
       controllers = [\<lparr>closed = False, chunks = []\<rparr>, \<lparr>closed = False, chunks = []\<rparr>],
       promises = [],
       timers = [([JSONRPCRequest (IdNumber 2) ''tools/list'' ''{}''], None)],
       events = [] \<rparr>"
  by (simp add: two_streams_transport_def stateless_transport_def run_def example_defs handler_defs
        handleGetRequest_def standaloneSseStreamId_def Let_def)

lemma fold_close_controller_fields:
  "streamMapping (fold close_controller cs s) = streamMapping s"
  "requestToStreamMapping (fold close_controller cs s) = requestToStreamMapping s"
  "events (fold close_controller cs s) = events s"
  "sessionId (fold close_controller cs s) = sessionId s"
  "onclose (fold close_controller cs s) = onclose s"
  by (induction cs arbitrary: s) (simp_all add: close_controller_def)

lemma cancel_hook_streamMapping:
  "map_of (streamMapping (cancel_hook s)) i =
     (if i = standaloneSseStreamId then None else map_of (streamMapping s) i)"
  by (simp add: cancel_hook_def AList.delete_conv)

lemma str_includes_nonempty: "str_includes c (x # xs) \<Longrightarrow> c \<noteq> []"
  by (cases c) auto

lemma handlePostRequest_gates:
  "passes_gates e req bodyText messages \<Longrightarrow>
     handlePostRequest e req bodyText authInfo s = post_messages e req authInfo messages s"
  by (auto simp: passes_gates_def handlePostRequest_def Let_def split: option.splits
        dest: str_includes_nonempty)

lemma example_passes_gates:
  "passes_gates (example_env msgs uuid) (example_request ''POST'' sid) [] msgs"
  by (simp add: passes_gates_def example_env_def example_request_def MAXIMUM_MESSAGE_SIZE_def)

lemma dispatch_throws:
  assumes "onmessage s = Some f" "\<forall>x\<in>set pre. f x a = None" "f m a = Some err"
  shows "dispatch a (pre @ m # post) s =
           (Some err, s\<lparr>events := events s @ map (\<lambda>x. OnMessage x a) (pre @ [m])\<rparr>)"
  using assms by (induction pre arbitrary: s) (simp_all add: Let_def)

lemma init_is_request: "isInitializeRequest m \<Longrightarrow> isJSONRPCRequest m"
  by (cases m) simp_all

lemma list_ex_init_request:
  "list_ex isInitializeRequest ms \<Longrightarrow> list_ex isJSONRPCRequest ms"
  by (auto simp: list_ex_iff dest: init_is_request)

lemma is_error_envelope_error_response [simp]:
  "is_error_envelope (error_response st code msg dat) =
     (code = - 32000 \<or> code = - 32001 \<or> code = - 32600 \<or> code = - 32700)"
  by (simp add: is_error_envelope_def error_response_def)

lemma validateSession_envelope:
  "validateSession s req = Some r \<Longrightarrow> is_error_envelope r"
  by (auto simp: validateSession_def Let_def split: if_splits)

lemma replayEvents_error:
  assumes "replayEvents e l s = (Returned r, s')" "\<not> is_2xx r" "eventStore s"
  shows "r = \<lparr>status = 500, headers = [], body = Text ''Internal Server Error''\<rparr>
         \<and> (\<exists>err. snd (replayEventsAfter e l) = Inl err)"
  using assms
  by (auto simp: replayEvents_def createSSEStream_def Let_def is_2xx_def
        split: prod.splits sum.splits)

lemma handleGetRequest_error:
  assumes "handleGetRequest e req s = (Returned r, s')" "\<not> is_2xx r"
  shows "is_error_envelope r
         \<or> (r = \<lparr>status = 500, headers = [], body = Text ''Internal Server Error''\<rparr>
            \<and> eventStore s
            \<and> (\<exists>l err. header req ''last-event-id'' = Some l
                  \<and> snd (replayEventsAfter e l) = Inl err))"
proof (cases "eventStore s \<and> header req ''last-event-id'' \<noteq> None
                \<and> header req ''last-event-id'' \<noteq> Some []")
  case True
  then obtain l where l: "header req ''last-event-id'' = Some l" by auto
  show ?thesis
    using assms True l replayEvents_error [of e l s r s']
    by (auto simp: handleGetRequest_def Let_def split: if_splits option.splits
          dest: validateSession_envelope)
next
  case False
  then show ?thesis
    using assms
    by (auto simp: handleGetRequest_def Let_def createSSEStream_def is_2xx_def
          split: if_splits option.splits prod.splits dest: validateSession_envelope)
qed

lemma handleDeleteRequest_error:
  assumes "handleDeleteRequest req s = (Returned r, s')" "\<not> is_2xx r"
  shows "is_error_envelope r"
  using assms
  by (auto simp: handleDeleteRequest_def is_2xx_def split: option.splits
        dest: validateSession_envelope)

lemma post_dispatch_error:
  assumes "post_dispatch e a ms s = (Returned r, s')" "\<not> is_2xx r"
  shows "is_error_envelope r"
  using assms
  by (auto simp: post_dispatch_def Let_def is_2xx_def createSSEStream_def parse_error_response_def
        split: if_splits option.splits prod.splits)

lemma post_messages_error:
  assumes "post_messages e req a ms s = (Returned r, s')" "\<not> is_2xx r"
  shows "is_error_envelope r"
  using assms
  by (auto simp: post_messages_def Let_def split: if_splits option.splits
        dest: validateSession_envelope post_dispatch_error)

lemma handlePostRequest_error:
  assumes "handlePostRequest e req b a s = (Returned r, s')" "\<not> is_2xx r"
  shows "is_error_envelope r"
  using assms
  by (auto simp: handlePostRequest_def Let_def parse_error_response_def
        split: if_splits sum.splits dest: post_messages_error)

lemma throwing_transport_fields:
  "onmessage throwing_transport =
     Some (\<lambda>m a. if m = JSONRPCNotification ''bad'' ''{}'' then Some ''Error: boom'' else None)"
  "sessionIdGenerator throwing_transport = None"
  "events throwing_transport = []"
  by (simp_all add: throwing_transport_def stateless_transport_def new_transport_def run_def)

lemma session_of_primitives [simp]:
  "session_of (invoke_onerror err s) = session_of s"
  "session_of (writeSSEEvent c m i s) = session_of s"
  "session_of (close_controller c s) = session_of s"
  "session_of (snd (createSSEStream s)) = session_of s"
  "session_of (cancel_hook s) = session_of s"
  "session_of (resolve p r s) = session_of s"
  "session_of (cleanup_request rid s) = session_of s"
  "session_of (snd (start s)) = session_of s"
  by (simp_all add: session_of_def invoke_onerror_def writeSSEEvent_def close_controller_def
        createSSEStream_def cancel_hook_def resolve_def cleanup_request_def start_def Let_def)

lemma session_of_updates [simp]:
  "session_of (s\<lparr>streamMapping := a\<rparr>) = session_of s"
  "session_of (s\<lparr>requestToStreamMapping := b\<rparr>) = session_of s"
  "session_of (s\<lparr>requestResponseMap := c\<rparr>) = session_of s"
  "session_of (s\<lparr>pendingResponses := d\<rparr>) = session_of s"
  "session_of (s\<lparr>controllers := f\<rparr>) = session_of s"
  "session_of (s\<lparr>promises := g\<rparr>) = session_of s"
  "session_of (s\<lparr>timers := h\<rparr>) = session_of s"
  "session_of (s\<lparr>events := i\<rparr>) = session_of s"
  "session_of (s\<lparr>onmessage := j\<rparr>) = session_of s"
  "session_of (s\<lparr>onclose := k\<rparr>) = session_of s"
  "session_of (s\<lparr>onerror := l\<rparr>) = session_of s"
  "session_of (s\<lparr>started := m\<rparr>) = session_of s"
  by (simp_all add: session_of_def)

lemma session_of_fold_close [simp]:
  "session_of (fold close_controller cs s) = session_of s"
  by (induction cs arbitrary: s) simp_all

lemma session_of_fold_cleanup [simp]:
  "session_of (fold cleanup_request ids s) = session_of s"
  by (induction ids arbitrary: s) simp_all

lemma session_of_replay_send [simp]:
  "session_of (replay_send c es s) = session_of s"
  by (induction c es s rule: replay_send.induct) simp_all

lemma session_of_dispatch [simp]:
  "session_of (snd (dispatch a ms s)) = session_of s"
  by (induction a ms s rule: dispatch.induct) (simp_all add: Let_def split: option.splits)

lemma session_of_close [simp]: "session_of (close s) = session_of s"
  by (simp add: close_def Let_def)

lemma session_of_cancel [simp]: "session_of (cancel c s) = session_of s"
  by (simp add: cancel_def)

lemma session_of_run_timer [simp]: "session_of (run_timer s) = session_of s"
  by (simp add: run_timer_def split: list.splits prod.splits)

lemma session_of_completeStream [simp]:
  "session_of (completeStream rid sid ctrl m s) = session_of s"
  by (simp add: completeStream_def Let_def split: option.splits)

lemma session_of_writeToStream:
  "writeToStream e sid ctrl m s = Inr s' \<Longrightarrow> session_of s' = session_of s"
  by (auto simp: writeToStream_def split: option.splits if_splits sum.splits)

lemma session_of_send [simp]: "session_of (snd (send e m rel s)) = session_of s"
  by (auto simp: send_def sendStandalone_def sendRelated_def Let_def
        split: option.splits sum.splits dest: session_of_writeToStream)

lemma session_of_replayEvents [simp]:
  "session_of (snd (replayEvents e l s)) = session_of s"
  by (simp add: replayEvents_def createSSEStream_def Let_def split: prod.splits sum.splits)

lemma session_of_handleGetRequest [simp]:
  "session_of (snd (handleGetRequest e req s)) = session_of s"
  by (simp add: handleGetRequest_def createSSEStream_def Let_def split: option.splits)

lemma session_of_handleDeleteRequest [simp]:
  "session_of (snd (handleDeleteRequest req s)) = session_of s"
  by (simp add: handleDeleteRequest_def split: option.splits)

lemma session_of_post_dispatch [simp]:
  "session_of (snd (post_dispatch e a ms s)) = session_of s"
proof (cases "dispatch a ms s")
  case (Pair x s1)
  then have "session_of s1 = session_of s"
    using session_of_dispatch [of a ms s] by simp
  with Pair show ?thesis
    by (simp add: post_dispatch_def createSSEStream_def Let_def split: option.splits)
qed

lemma session_of_post_messages:
  "established s \<Longrightarrow> session_of (snd (post_messages e req a ms s)) = session_of s"
  by (simp add: post_messages_def established_def Let_def split: option.splits)

lemma session_of_handlePostRequest:
  "established s \<Longrightarrow> session_of (snd (handlePostRequest e req b a s)) = session_of s"
  by (simp add: handlePostRequest_def Let_def session_of_post_messages split: sum.splits)

lemma session_of_exec:
  "established s \<Longrightarrow> session_of (exec op s) = session_of s"
  by (cases op) (simp_all add: handleRequest_def session_of_handlePostRequest)

lemma established_session_of:
  "session_of s' = session_of s \<Longrightarrow> established s' = established s"
  by (simp add: session_of_def established_def)

lemma session_of_run:
  "established s \<Longrightarrow> session_of (run ops s) = session_of s"
proof (induction ops arbitrary: s)
  case Nil
  then show ?case by (simp add: run_def)
next
  case (Cons op ops)
  have e: "session_of (exec op s) = session_of s"
    using Cons.prems by (rule session_of_exec)
  then have "established (exec op s)"
    using Cons.prems established_session_of by blast
  then have "session_of (run ops (exec op s)) = session_of (exec op s)"
    by (rule Cons.IH)
  with e show ?case by (simp add: run_def)
qed

lemma first_initialize_establishes:
  assumes "sessionIdGenerator s \<noteq> None"
      and "post_messages e req a ms s = (res, s1)"
      and "list_ex isInitializeRequest ms"
      and "succeeded res"
  shows "established s1"
proof -
  from assms(1) obtain g where g: "sessionIdGenerator s = Some g" by auto
  show ?thesis
  proof (cases "initialized s \<and> sessionId s \<noteq> None")
    case True
    with assms show ?thesis
      by (auto simp: post_messages_def succeeded_def error_response_def established_def)
  next
    case False
    let ?s1 = "s\<lparr>sessionId := Some (g ()), initialized := True\<rparr>"
    let ?s2 = "if g () \<noteq> [] \<and> onsessioninitialized s
               then ?s1\<lparr>events := events s @ [OnSessionInitialized (g ())]\<rparr> else ?s1"
    from False assms g have "s1 = snd (post_dispatch e a ms ?s2)"
      by (auto simp: post_messages_def succeeded_def error_response_def Let_def
            split: if_splits)
    then have "session_of s1 = session_of ?s2" by simp
    then show ?thesis
      by (simp add: session_of_def established_def split: if_splits)
  qed
qed

lemma utf8_length_multibyte_body: "utf8_length multibyte_body = 4 * 1024 * 1024 + 1"
  by (simp add: utf8_length_def multibyte_body_def utf8_bytes_def sum_list_replicate)

lemma length_multibyte_body: "length multibyte_body = 2097153"
  by (simp add: multibyte_body_def)

lemma consistent_core: "core_of s' = core_of s \<Longrightarrow> consistent s' = consistent s"
  by (simp add: core_of_def consistent_def)

lemma core_of_primitives [simp]:
  "core_of (invoke_onerror err s) = core_of s"
  "core_of (writeSSEEvent c m i s) = core_of s"
  "core_of (close_controller c s) = core_of s"
  "core_of (snd (createSSEStream s)) = core_of s"
  "core_of (cancel_hook s) = core_of s"
  "core_of (resolve p r s) = core_of s"
  "core_of (snd (start s)) = core_of s"
  by (simp_all add: core_of_def invoke_onerror_def writeSSEEvent_def close_controller_def
        createSSEStream_def cancel_hook_def resolve_def start_def Let_def)

lemma core_of_updates [simp]:
  "core_of (s\<lparr>streamMapping := a\<rparr>) = core_of s"
  "core_of (s\<lparr>controllers := f\<rparr>) = core_of s"
  "core_of (s\<lparr>promises := g\<rparr>) = core_of s"
  "core_of (s\<lparr>timers := h\<rparr>) = core_of s"
  "core_of (s\<lparr>events := i\<rparr>) = core_of s"
  "core_of (s\<lparr>onmessage := j\<rparr>) = core_of s"
  "core_of (s\<lparr>onclose := k\<rparr>) = core_of s"
  "core_of (s\<lparr>onerror := l\<rparr>) = core_of s"
  "core_of (s\<lparr>started := m\<rparr>) = core_of s"
  "core_of (s\<lparr>sessionId := n\<rparr>) = core_of s"
  "core_of (s\<lparr>initialized := b\<rparr>) = core_of s"
  by (simp_all add: core_of_def)

lemma core_of_fold_close [simp]: "core_of (fold close_controller cs s) = core_of s"
  by (induction cs arbitrary: s) simp_all

lemma core_of_replay_send [simp]: "core_of (replay_send c es s) = core_of s"
  by (induction c es s rule: replay_send.induct) simp_all

lemma core_of_dispatch [simp]: "core_of (snd (dispatch a ms s)) = core_of s"
  by (induction a ms s rule: dispatch.induct) (simp_all add: Let_def split: option.splits)

lemma core_of_cancel [simp]: "core_of (cancel c s) = core_of s"
  by (simp add: cancel_def)

lemma core_of_run_timer [simp]: "core_of (run_timer s) = core_of s"
  by (simp add: run_timer_def split: list.splits prod.splits)

lemma core_of_replayEvents [simp]: "core_of (snd (replayEvents e l s)) = core_of s"
  by (simp add: replayEvents_def createSSEStream_def Let_def split: prod.splits sum.splits)

lemma core_of_handleGetRequest [simp]: "core_of (snd (handleGetRequest e req s)) = core_of s"
  by (simp add: handleGetRequest_def createSSEStream_def Let_def split: option.splits)

lemma core_of_writeToStream:
  "writeToStream e sid ctrl m s = Inr s' \<Longrightarrow> core_of s' = core_of s"
  by (auto simp: writeToStream_def split: option.splits if_splits sum.splits)

lemma core_of_sendStandalone [simp]: "core_of (snd (sendStandalone e m s)) = core_of s"
  by (simp add: sendStandalone_def split: option.splits sum.splits)

lemma consistent_close: "consistent s \<Longrightarrow> consistent (close s)"
  by (simp add: close_def Let_def consistent_def)

lemma keys_storeRequestMapping:
  "fst ` set idx \<subseteq> fst ` set (storeRequestMapping sid ms idx)"
  by (induction sid ms idx rule: storeRequestMapping.induct) (auto simp: AList.dom_update)

lemma consistent_post_dispatch: "consistent s \<Longrightarrow> consistent (snd (post_dispatch e a ms s))"
proof (cases "list_ex isJSONRPCRequest ms")
  case False
  assume c: "consistent s"
  obtain x s1 where d: "dispatch a ms s = (x, s1)" by (cases "dispatch a ms s")
  then have "core_of s1 = core_of s" using core_of_dispatch [of a ms s] by simp
  then have "consistent s1" using c consistent_core by blast
  with False d show ?thesis by (simp add: post_dispatch_def split: option.splits)
next
  case True
  assume c: "consistent s"
  have k: "fst ` set (requestResponseMap s)
             \<subseteq> fst ` set (storeRequestMapping (randomUUID e) ms (requestToStreamMapping s))"
    using c keys_storeRequestMapping [of "requestToStreamMapping s" "randomUUID e" ms]
    unfolding consistent_def by (meson subset_trans)
  show ?thesis
  proof (cases "enableJsonResponse s")
    case j: True
    with True k show ?thesis
      by (simp add: post_dispatch_def Let_def consistent_def)
  next
    case j: False
    with c have "pendingResponses s = []" by (simp add: consistent_def)
    with True k j show ?thesis
      by (simp add: post_dispatch_def createSSEStream_def Let_def consistent_def)
  qed
qed

lemma consistent_post_messages: "consistent s \<Longrightarrow> consistent (snd (post_messages e req a ms s))"
proof -
  assume c: "consistent s"
  let ?s1 = "s\<lparr>sessionId := map_option (\<lambda>g. g ()) (sessionIdGenerator s), initialized := True\<rparr>"
  let ?s2 = "case sessionId ?s1 of None \<Rightarrow> ?s1
             | Some i \<Rightarrow> if i \<noteq> [] \<and> onsessioninitialized ?s1
                         then ?s1\<lparr>events := events ?s1 @ [OnSessionInitialized i]\<rparr> else ?s1"
  have "core_of ?s2 = core_of s" by (simp split: option.splits)
  then have "consistent ?s2" using c consistent_core by blast
  then have i: "consistent (snd (post_dispatch e a ms ?s2))" by (rule consistent_post_dispatch)
  have n: "consistent (snd (post_dispatch e a ms s))" using c by (rule consistent_post_dispatch)
  show ?thesis
  proof (cases "list_ex isInitializeRequest ms")
    case True
    then show ?thesis
      using c i by (simp add: post_messages_def Let_def)
  next
    case False
    then show ?thesis
      using c n by (simp add: post_messages_def Let_def split: option.splits)
  qed
qed

lemma consistent_handlePostRequest:
  "consistent s \<Longrightarrow> consistent (snd (handlePostRequest e req b a s))"
  by (simp add: handlePostRequest_def Let_def consistent_post_messages split: sum.splits)

lemma consistent_handleRequest:
  "consistent s \<Longrightarrow> consistent (snd (handleRequest e req b a s))"
  using consistent_core [OF core_of_handleGetRequest]
  by (simp add: handleRequest_def consistent_handlePostRequest handleDeleteRequest_def
        consistent_close split: option.splits)

lemma requestResponseMap_fold_cleanup:
  "requestResponseMap (fold cleanup_request ids s) = fold AList.delete ids (requestResponseMap s)"
  "requestToStreamMapping (fold cleanup_request ids s)
     = fold AList.delete ids (requestToStreamMapping s)"
  "pendingResponses (fold cleanup_request ids s) = pendingResponses s"
  "streamMapping (fold cleanup_request ids s) = streamMapping s"
  "enableJsonResponse (fold cleanup_request ids s) = enableJsonResponse s"
  "promises (fold cleanup_request ids s) = promises s"
  by (induction ids arbitrary: s) (simp_all add: cleanup_request_def)

lemma keys_fold_delete:
  "fst ` set (fold AList.delete ids al) = fst ` set al - set ids"
proof (induction ids arbitrary: al)
  case Nil
  then show ?case by simp
next
  case (Cons i ids)
  have "fst ` set (AList.delete i al) = fst ` set al - {i}"
    by (auto simp: AList.delete_eq image_iff)
  with Cons show ?case by auto
qed

lemma map_of_fold_delete:
  "map_of (fold AList.delete ids al) k = (if k \<in> set ids then None else map_of al k)"
  by (induction ids arbitrary: al) (auto simp: AList.delete_conv)

lemma set_fold_delete:
  "set (fold AList.delete ids al) = {x \<in> set al. fst x \<notin> set ids}"
  by (induction ids arbitrary: al) (auto simp: AList.delete_eq)

lemma relatedIds_update_buffer [simp]:
  "relatedIds sid (s\<lparr>requestResponseMap := b\<rparr>) = relatedIds sid s"
  by (simp add: relatedIds_def)

lemma delete_absent: "map_of al k = None \<Longrightarrow> AList.delete k al = al"
  by (simp add: map_of_eq_None_iff)

lemma completeStream_not_ready:
  assumes "\<not> list_all (\<lambda>i. map_of (AList.update rid m (requestResponseMap s)) i \<noteq> None)
               (relatedIds sid s)"
  shows "completeStream rid sid ctrl m s
           = s\<lparr>requestResponseMap := AList.update rid m (requestResponseMap s)\<rparr>"
  using assms by (simp add: completeStream_def Let_def)

lemma completeStream_ready:
  assumes "list_all (\<lambda>i. map_of (AList.update rid m (requestResponseMap s)) i \<noteq> None)
             (relatedIds sid s)"
  shows "requestResponseMap (completeStream rid sid ctrl m s)
           = fold AList.delete (relatedIds sid s) (AList.update rid m (requestResponseMap s))"
    and "requestToStreamMapping (completeStream rid sid ctrl m s)
           = fold AList.delete (relatedIds sid s) (requestToStreamMapping s)"
    and "streamMapping (completeStream rid sid ctrl m s) = AList.delete sid (streamMapping s)"
    and "pendingResponses (completeStream rid sid ctrl m s)
           = (if enableJsonResponse s then AList.delete sid (pendingResponses s)
              else pendingResponses s)"
    and "enableJsonResponse (completeStream rid sid ctrl m s) = enableJsonResponse s"
  using assms
  by (simp_all add: completeStream_def Let_def requestResponseMap_fold_cleanup resolve_def
        close_controller_def delete_absent split: option.splits)

lemma consistent_completeStream:
  assumes "consistent s" and "rid \<in> fst ` set (requestToStreamMapping s)"
  shows "consistent (completeStream rid sid ctrl m s)"
proof (cases "list_all (\<lambda>i. map_of (AList.update rid m (requestResponseMap s)) i \<noteq> None)
                (relatedIds sid s)")
  case False
  then show ?thesis
    using assms by (auto simp: completeStream_not_ready consistent_def AList.dom_update)
next
  case True
  have "pendingResponses s = [] \<Longrightarrow> AList.delete sid (pendingResponses s) = []" by simp
  then show ?thesis
    using assms
    by (auto simp: completeStream_ready [OF True] consistent_def keys_fold_delete
          AList.dom_update)
qed

lemma writeToStream_fields:
  assumes "writeToStream e sid ctrl m s = Inr s1"
  shows "requestToStreamMapping s1 = requestToStreamMapping s"
    and "requestResponseMap s1 = requestResponseMap s"
    and "pendingResponses s1 = pendingResponses s"
    and "streamMapping s1 = streamMapping s"
    and "enableJsonResponse s1 = enableJsonResponse s"
    and "sessionId s1 = sessionId s"
    and "promises s1 = promises s"
  using assms
  by (auto simp: writeToStream_def writeSSEEvent_def invoke_onerror_def Let_def
        split: option.splits if_splits sum.splits)

lemma sendRelated_cases:
  "sendRelated e m rid s = (res, s') \<Longrightarrow>
     (\<exists>err. res = Inl err \<and> s' = s)
     \<or> (\<exists>sid s1. map_of (requestToStreamMapping s) rid = Some sid \<and> sid \<noteq> []
           \<and> writeToStream e sid (map_of (streamMapping s) sid) m s = Inr s1 \<and> res = Inr ()
           \<and> s' = (if isJSONRPCResponse m \<or> isJSONRPCError m
                   then completeStream rid sid (map_of (streamMapping s) sid) m s1 else s1))"
  by (auto simp: sendRelated_def Let_def split: option.splits sum.splits if_splits)

lemma consistent_sendRelated:
  assumes "consistent s"
  shows "consistent (snd (sendRelated e m rid s))"
proof -
  obtain res s' where r: "sendRelated e m rid s = (res, s')" by (cases "sendRelated e m rid s")
  from sendRelated_cases [OF r] show ?thesis
  proof
    assume "\<exists>err. res = Inl err \<and> s' = s"
    with r assms show ?thesis by auto
  next
    assume "\<exists>sid s1. map_of (requestToStreamMapping s) rid = Some sid \<and> sid \<noteq> []
           \<and> writeToStream e sid (map_of (streamMapping s) sid) m s = Inr s1 \<and> res = Inr ()
           \<and> s' = (if isJSONRPCResponse m \<or> isJSONRPCError m
                   then completeStream rid sid (map_of (streamMapping s) sid) m s1 else s1)"
    then obtain sid s1 where
      i: "map_of (requestToStreamMapping s) rid = Some sid" and
      w: "writeToStream e sid (map_of (streamMapping s) sid) m s = Inr s1" and
      s': "s' = (if isJSONRPCResponse m \<or> isJSONRPCError m
                 then completeStream rid sid (map_of (streamMapping s) sid) m s1 else s1)"
      by blast
    have c1: "consistent s1"
      using assms core_of_writeToStream [OF w] consistent_core by blast
    have "rid \<in> fst ` set (requestToStreamMapping s1)"
      using i writeToStream_fields(1) [OF w] by (metis domI dom_map_of_conv_image_fst)
    then have "consistent (completeStream rid sid (map_of (streamMapping s) sid) m s1)"
      using c1 consistent_completeStream by blast
    with c1 s' r show ?thesis by simp
  qed
qed

lemma consistent_send: "consistent s \<Longrightarrow> consistent (snd (send e m rel s))"
  using consistent_core [OF core_of_sendStandalone]
  by (simp add: send_def Let_def consistent_sendRelated split: option.splits)

lemma consistent_exec: "consistent s \<Longrightarrow> consistent (exec op s)"
proof -
  assume c: "consistent s"
  have u: "\<And>s'. core_of s' = core_of s \<Longrightarrow> consistent s'"
    using c consistent_core by blast
  show ?thesis
  proof (cases op)
    case Start
    then show ?thesis by (simp add: u)
  next
    case (HandleRequest e req b a)
    then show ?thesis using c by (simp add: consistent_handleRequest)
  next
    case (Send e m rel)
    then show ?thesis using c by (simp add: consistent_send)
  next
    case Close
    then show ?thesis using c by (simp add: consistent_close)
  next
    case (Cancel n)
    then show ?thesis by (simp add: u)
  next
    case RunTimer
    then show ?thesis by (simp add: u)
  next
    case (SetOnmessage f)
    then show ?thesis by (simp add: u)
  next
    case (SetOnclose b)
    then show ?thesis by (simp add: u)
  next
    case (SetOnerror b)
    then show ?thesis by (simp add: u)
  qed
qed

lemma consistent_run: "consistent s \<Longrightarrow> consistent (run ops s)"
  unfolding run_def by (induction ops arbitrary: s) (simp_all add: consistent_exec)

lemma reachable_consistent: "reachable s \<Longrightarrow> consistent s"
proof -
  assume "reachable s"
  then obtain gen oi ej st ops where s: "s = run ops (new_transport gen oi ej st)"
    unfolding reachable_def by blast
  have "consistent (new_transport gen oi ej st)"
    by (simp add: consistent_def new_transport_def)
  then show ?thesis unfolding s by (rule consistent_run)
qed

lemmas send_defs = send_def sendRelated_def sendStandalone_def writeToStream_def writeSSEEvent_def
  completeStream_def relatedIds_def cleanup_request_def close_controller_def is_open_def
  resolve_def session_header_def invoke_onerror_def

lemma send_example_eq:
  "send (example_env [] ''uuid-2'') (JSONRPCResponse (IdNumber 1) ''{}'') None
     initialized_transport
   = (Inr (),
      initialized_transport
        \<lparr> streamMapping := [], requestToStreamMapping := [],
          controllers := [\<lparr>closed = True,
                           chunks = [SSEEvent None (JSONRPCResponse (IdNumber 1) ''{}'')]\<rparr>] \<rparr>)"
  by (simp add: initialized_transport_eq send_defs example_env_def Let_def)

lemma reachable_initialized_transport: "reachable initialized_transport"
  unfolding reachable_def initialized_transport_def stateful_transport_def by blast






lemma session_header_update [simp]:
  "session_header (s\<lparr>requestResponseMap := b\<rparr>) = session_header s"
  by (simp add: session_header_def)











lemma send_terminal_returns:
  assumes "isJSONRPCResponse m \<or> isJSONRPCError m"
      and "message_id m = Some rid"
      and "map_of (requestToStreamMapping s) rid = Some sid" and "sid \<noteq> []"
      and "enableJsonResponse s \<or> \<not> eventStore s \<or> map_of (streamMapping s) sid = None
           \<or> storeEvent e sid m = Inr eventId"
  shows "fst (send e m rel s) = Inr ()"
  using assms
  by (auto simp: send_def sendRelated_def writeToStream_def Let_def
        split: option.splits sum.splits)


section \<open>send: dispatch errors\<close>

text \<open>
  C9. When the effective request id of a call to \<^verbatim>\<open>send\<close> (the id of the message for a
  response or an error, the related request id otherwise) is defined and the
  request-to-stream index has no entry for it, \<^verbatim>\<open>send\<close> throws an error whose message is
  ``No stream found for request ID: '' followed by the id, and the transport, its four
  mappings included, is left as it was.
\<close>

theorem send_unknown_request_id:
  assumes "(if isJSONRPCResponse m \<or> isJSONRPCError m then message_id m else rel) = Some rid"
      and "map_of (requestToStreamMapping s) rid = None"
  shows "send e m rel s = (Inl (''No stream found for request ID: '' @ String_RequestId rid), s)"
  using assms by (simp add: send_def sendRelated_def Let_def)

theorem send_unknown_request_id_witness:
  "send (example_env [] ''uuid-2'') (JSONRPCResponse (IdNumber 7) ''{}'') None
        initialized_transport
     = (Inl ''No stream found for request ID: 7'', initialized_transport)"
  using send_unknown_request_id [of "JSONRPCResponse (IdNumber 7) ''{}''" None "IdNumber 7"
          initialized_transport "example_env [] ''uuid-2''"]
  by (simp add: initialized_transport_eq string_of_nat.simps)

section \<open>close\<close>

text \<open>
  C1, as the code has it. After \<^verbatim>\<open>close()\<close> the stream registry, the
  request-to-response buffer and the pending JSON resolvers are empty, \<^verbatim>\<open>onclose\<close> has
  been invoked if the host has set it, and the session id is the one the transport had
  before the call: \<^verbatim>\<open>close()\<close> does not assign it. This holds of every transport state.
\<close>

theorem close_clears:
  "streamMapping (close s) = [] \<and> requestResponseMap (close s) = []
     \<and> pendingResponses (close s) = [] \<and> sessionId (close s) = sessionId s
     \<and> events (close s) = events s @ (if onclose s then [OnClose] else [])"
  by (simp add: close_def Let_def fold_close_controller_fields)

theorem close_clears_witness:
  "streamMapping (close (initialized_transport\<lparr>onclose := True\<rparr>)) = []
   \<and> sessionId (close (initialized_transport\<lparr>onclose := True\<rparr>)) = Some ''session-1''
   \<and> events (close (initialized_transport\<lparr>onclose := True\<rparr>)) = [OnClose]"
  using close_clears [of "initialized_transport\<lparr>onclose := True\<rparr>"]
  by (simp add: initialized_transport_eq)

text \<open>
  C1 as stated fails: after the initialize POST of a client, \<^verbatim>\<open>close()\<close> leaves the
  entry of request 1 in the request-to-stream index and leaves the session id set.
\<close>

theorem close_keeps_index_and_session:
  "requestToStreamMapping (close initialized_transport) = [(IdNumber 1, ''uuid-1'')]
   \<and> sessionId (close initialized_transport) = Some ''session-1''"
  by (simp add: initialized_transport_eq close_def Let_def close_controller_def is_open_def)

section \<open>Cancellation of a stream by its consumer\<close>

text \<open>
  C2 at a failing input. With the standalone GET stream and the stream of a POST both
  registered, the consumer of the POST's stream (registered under \<open>uuid-1\<close>, controller 1)
  cancels it: the cancel hook removes the entry of the standalone stream and keeps the
  entry of the cancelled stream.
\<close>

theorem cancel_post_stream_removes_standalone:
  "streamMapping two_streams_transport = [(''_GET_stream'', 0), (''uuid-1'', 1)]
   \<and> streamMapping (cancel 1 two_streams_transport) = [(''uuid-1'', 1)]"
  by (simp add: two_streams_transport_eq cancel_def cancel_hook_def close_controller_def
        is_open_def standaloneSseStreamId_def)

section \<open>Session validation\<close>

text \<open>
  C6, as the code has it. \<^verbatim>\<open>validateSession\<close> evaluates its rules in order: without a
  session id generator the request is valid; else, on a transport that is not initialized,
  400 with code -32000 and ``Bad Request: Server not initialized''; else, when the
  \<^verbatim>\<open>Mcp-Session-Id\<close> header is absent or empty, 400 with code -32000 and ``Bad Request:
  Mcp-Session-Id header is required''; else, when the header differs from the session id,
  404 with code -32001 and ``Session not found''; otherwise valid. A DELETE, a GET that
  accepts \<^verbatim>\<open>text/event-stream\<close> and a POST that passed the gates with a payload without an
  initialize request answer with the response of a failed validation and leave the
  transport as it was.
\<close>

theorem validateSession_rules:
  "(sessionIdGenerator s = None \<longrightarrow> validateSession s req = None)
   \<and> (sessionIdGenerator s \<noteq> None \<and> \<not> initialized s \<longrightarrow>
        validateSession s req =
          Some (error_response 400 (- 32000) ''Bad Request: Server not initialized'' None))
   \<and> (sessionIdGenerator s \<noteq> None \<and> initialized s
        \<and> (header req ''mcp-session-id'' = None \<or> header req ''mcp-session-id'' = Some []) \<longrightarrow>
        validateSession s req =
          Some (error_response 400 (- 32000)
                  ''Bad Request: Mcp-Session-Id header is required'' None))
   \<and> (sessionIdGenerator s \<noteq> None \<and> initialized s
        \<and> header req ''mcp-session-id'' = Some h \<and> h \<noteq> [] \<and> sessionId s \<noteq> Some h \<longrightarrow>
        validateSession s req = Some (error_response 404 (- 32001) ''Session not found'' None))
   \<and> (sessionIdGenerator s \<noteq> None \<and> initialized s
        \<and> header req ''mcp-session-id'' = Some h \<and> h \<noteq> [] \<and> sessionId s = Some h \<longrightarrow>
        validateSession s req = None)
   \<and> (validateSession s req = Some r \<longrightarrow>
        handleDeleteRequest req s = (Returned r, s)
        \<and> (header req ''accept'' = Some a \<and> str_includes a ''text/event-stream'' \<longrightarrow>
             handleGetRequest e req s = (Returned r, s))
        \<and> (header req ''accept'' = Some a \<and> str_includes a ''application/json''
             \<and> str_includes a ''text/event-stream''
             \<and> header req ''content-type'' = Some c \<and> str_includes c ''application/json''
             \<and> length bodyText \<le> MAXIMUM_MESSAGE_SIZE
             \<and> JSON_parse e bodyText = Inr messages
             \<and> \<not> list_ex isInitializeRequest messages \<longrightarrow>
             handlePostRequest e req bodyText authInfo s = (Returned r, s)))"
  by (auto simp: validateSession_def handleDeleteRequest_def handleGetRequest_def
        handlePostRequest_def post_messages_def Let_def)

theorem validateSession_rules_witness:
  "validateSession initialized_transport (example_request ''DELETE'' (Some ''session-2''))
     = Some (error_response 404 (- 32001) ''Session not found'' None)
   \<and> handleDeleteRequest (example_request ''DELETE'' (Some ''session-2'')) initialized_transport
     = (Returned (error_response 404 (- 32001) ''Session not found'' None), initialized_transport)
   \<and> validateSession initialized_transport (example_request ''DELETE'' (Some ''session-1'')) = None
   \<and> validateSession initialized_transport (example_request ''DELETE'' None)
     = Some (error_response 400 (- 32000) ''Bad Request: Mcp-Session-Id header is required'' None)
   \<and> validateSession stateful_transport (example_request ''DELETE'' (Some ''session-1''))
     = Some (error_response 400 (- 32000) ''Bad Request: Server not initialized'' None)"
  using validateSession_rules [of initialized_transport
          "example_request ''DELETE'' (Some ''session-2'')" "''session-2''"
          "error_response 404 (- 32001) ''Session not found'' None"]
        validateSession_rules [of initialized_transport
          "example_request ''DELETE'' (Some ''session-1'')" "''session-1''"]
        validateSession_rules [of initialized_transport "example_request ''DELETE'' None"]
        validateSession_rules [of stateful_transport
          "example_request ''DELETE'' (Some ''session-1'')"]
  by (simp add: initialized_transport_eq example_request_def stateful_transport_def
        new_transport_def)

text \<open>
  C6 as stated fails on a header that is present and empty: it is not absent and it
  differs from the session id, yet the answer is the 400 of the missing header, not 404.
\<close>

theorem validateSession_empty_header:
  "header (example_request ''DELETE'' (Some [])) ''mcp-session-id'' = Some []
   \<and> sessionId initialized_transport = Some ''session-1''
   \<and> validateSession initialized_transport (example_request ''DELETE'' (Some []))
       = Some (error_response 400 (- 32000)
                 ''Bad Request: Mcp-Session-Id header is required'' None)
   \<and> validateSession initialized_transport (example_request ''DELETE'' (Some []))
       \<noteq> Some (error_response 404 (- 32001) ''Session not found'' None)"
  by (simp add: initialized_transport_eq example_request_def validateSession_def
        error_response_def)

section \<open>A callback that throws during the synchronous dispatch\<close>

text \<open>
  C10. A POST passes all gates and the session validation, and its payload contains no
  JSON-RPC request. If the host's \<^verbatim>\<open>onmessage\<close> throws on one of the messages, having
  returned on those before it, the response is not 202 but 400 with code -32700, message
  ``Parse error'' and data the string of the thrown value; \<^verbatim>\<open>onmessage\<close> has been invoked,
  in payload order, for the messages up to and including the one on which it threw, and
  for no later one.
\<close>

theorem post_onmessage_throws:
  assumes "passes_gates e req bodyText messages"
      and "\<not> list_ex isJSONRPCRequest messages"
      and "validateSession s req = None"
      and "onmessage s = Some f"
      and "messages = pre @ m # post"
      and "\<forall>x\<in>set pre. f x authInfo = None"
      and "f m authInfo = Some err"
  shows "handlePostRequest e req bodyText authInfo s =
           (Returned (error_response 400 (- 32700) ''Parse error'' (Some err)),
            s\<lparr>events := events s @ map (\<lambda>x. OnMessage x authInfo) (pre @ [m])\<rparr>)"
proof -
  have "\<not> list_ex isInitializeRequest messages"
    using assms(2) list_ex_init_request by blast
  then have "handlePostRequest e req bodyText authInfo s = post_dispatch e authInfo messages s"
    using assms(1,3) by (simp add: handlePostRequest_gates post_messages_def)
  also have "\<dots> = (Returned (parse_error_response err),
            s\<lparr>events := events s @ map (\<lambda>x. OnMessage x authInfo) (pre @ [m])\<rparr>)"
    using assms(2) dispatch_throws [OF assms(4,6,7), of post]
    by (simp add: post_dispatch_def assms(5))
  finally show ?thesis by (simp add: parse_error_response_def)
qed

theorem post_onmessage_throws_witness:
  "handlePostRequest
     (example_env [JSONRPCNotification ''ping'' ''{}'', JSONRPCNotification ''bad'' ''{}'',
                   JSONRPCNotification ''late'' ''{}''] ''uuid-1'')
     (example_request ''POST'' None) [] None throwing_transport
   = (Returned (error_response 400 (- 32700) ''Parse error'' (Some ''Error: boom'')),
      throwing_transport\<lparr>events :=
        [OnMessage (JSONRPCNotification ''ping'' ''{}'') None,
         OnMessage (JSONRPCNotification ''bad'' ''{}'') None]\<rparr>)"
proof -
  let ?f = "\<lambda>m (a :: AuthInfo option). if m = JSONRPCNotification ''bad'' ''{}''
              then Some ''Error: boom'' else None"
  let ?ms = "[JSONRPCNotification ''ping'' ''{}'', JSONRPCNotification ''bad'' ''{}'',
              JSONRPCNotification ''late'' ''{}'']"
  have g: "passes_gates (example_env ?ms ''uuid-1'') (example_request ''POST'' None) [] ?ms"
    by (rule example_passes_gates)
  have r: "\<not> list_ex isJSONRPCRequest ?ms" by simp
  have v: "validateSession throwing_transport (example_request ''POST'' None) = None"
    by (simp add: validateSession_def throwing_transport_fields)
  have o: "onmessage throwing_transport = Some ?f" by (rule throwing_transport_fields)
  have d: "?ms = [JSONRPCNotification ''ping'' ''{}''] @ JSONRPCNotification ''bad'' ''{}''
                   # [JSONRPCNotification ''late'' ''{}'']" by simp
  have p: "\<forall>x\<in>set [JSONRPCNotification ''ping'' ''{}'']. ?f x None = None" by simp
  have t: "?f (JSONRPCNotification ''bad'' ''{}'') None = Some ''Error: boom''" by simp
  show ?thesis
    using post_onmessage_throws [OF g r v o d p t]
    by (simp add: throwing_transport_fields)
qed

section \<open>The bodies of error responses\<close>

text \<open>
  C8, as the code has it. Every response of \<^verbatim>\<open>handleRequest\<close> whose status is not 2xx
  has a body of the shape \<^verbatim>\<open>{jsonrpc: "2.0", error: {code, message, data?}, id: null}\<close>
  with a code among -32000, -32001, -32600 and -32700, except the answer to a resuming GET
  whose replay the event store rejects: that one is a 500 without headers whose body is the
  text ``Internal Server Error''.
\<close>

theorem error_responses:
  assumes "handleRequest e req bodyText authInfo s = (Returned r, s')" and "\<not> is_2xx r"
  shows "is_error_envelope r
         \<or> (r = \<lparr>status = 500, headers = [], body = Text ''Internal Server Error''\<rparr>
            \<and> httpMethod req = ''GET'' \<and> eventStore s
            \<and> (\<exists>l err. header req ''last-event-id'' = Some l
                  \<and> snd (replayEventsAfter e l) = Inl err))"
  using assms
  by (auto simp: handleRequest_def handleUnsupportedRequest_def is_error_envelope_def
        split: if_splits
        dest: handlePostRequest_error handleGetRequest_error handleDeleteRequest_error)

theorem error_responses_witness:
  "handleRequest (example_env [] ''uuid-1'') (example_request ''PUT'' None) [] None
       stateless_transport
     = (Returned handleUnsupportedRequest, stateless_transport)
   \<and> \<not> is_2xx handleUnsupportedRequest
   \<and> is_error_envelope handleUnsupportedRequest"
  using error_responses [of "example_env [] ''uuid-1''" "example_request ''PUT'' None" "[]" None
          stateless_transport handleUnsupportedRequest stateless_transport]
  by (simp add: handleRequest_def example_request_def is_2xx_def handleUnsupportedRequest_def)

text \<open>
  C8 as stated fails on the replay path: when the event store rejects the replay, the
  response is a 500 whose body is plain text.
\<close>

theorem replay_failure_is_plain_text:
  "fst (handleRequest failing_store_env replay_request [] None resumable_transport)
     = Returned \<lparr>status = 500, headers = [], body = Text ''Internal Server Error''\<rparr>
   \<and> \<not> is_error_envelope \<lparr>status = 500, headers = [], body = Text ''Internal Server Error''\<rparr>"
  by (simp add: handleRequest_def handleGetRequest_def replayEvents_def replay_request_def
        failing_store_env_def resumable_transport_def new_transport_def validateSession_def
        createSSEStream_def session_header_def invoke_onerror_def is_error_envelope_def Let_def)

section \<open>The initialize handshake happens once\<close>

text \<open>
  C5. On a transport with a session id generator, after a POST whose payload contains an
  initialize request has succeeded, and whatever calls follow it, every POST that passes
  the gates and whose payload contains an initialize request is answered with 400, code
  -32600 and the message ``Invalid Request: Server already initialized''; it leaves the
  transport, and so the session id, unchanged, and the session id is the one the first
  POST set.
\<close>

theorem second_initialize_rejected:
  assumes "sessionIdGenerator s0 \<noteq> None"
      and "passes_gates e1 req1 body1 msgs1" and "list_ex isInitializeRequest msgs1"
      and "handlePostRequest e1 req1 body1 a1 s0 = (res1, s1)" and "succeeded res1"
      and "s2 = run ops s1"
      and "passes_gates e2 req2 body2 msgs2" and "list_ex isInitializeRequest msgs2"
  shows "handlePostRequest e2 req2 body2 a2 s2 =
           (Returned (error_response 400 (- 32600)
                        ''Invalid Request: Server already initialized'' None), s2)
         \<and> sessionId s2 = sessionId s1 \<and> sessionId s1 \<noteq> None"
proof -
  have "post_messages e1 req1 a1 msgs1 s0 = (res1, s1)"
    using assms(2,4) by (simp add: handlePostRequest_gates)
  then have e1: "established s1"
    using assms(1,3,5) first_initialize_establishes by blast
  then have "session_of s2 = session_of s1"
    using assms(6) by (simp add: session_of_run)
  then have e2: "established s2" and sid: "sessionId s2 = sessionId s1"
    using e1 by (simp_all add: established_def session_of_def)
  have "handlePostRequest e2 req2 body2 a2 s2 = post_messages e2 req2 a2 msgs2 s2"
    using assms(7) by (rule handlePostRequest_gates)
  also have "\<dots> = (Returned (error_response 400 (- 32600)
                        ''Invalid Request: Server already initialized'' None), s2)"
    using e2 assms(8) by (simp add: post_messages_def established_def)
  finally show ?thesis using sid e1 by (simp add: established_def)
qed

theorem second_initialize_rejected_witness:
  "handlePostRequest (example_env [initialize_request] ''uuid-2'')
       (example_request ''POST'' (Some ''session-1'')) [] None
       (run [Start, Close] initialized_transport)
     = (Returned (error_response 400 (- 32600)
                    ''Invalid Request: Server already initialized'' None),
        run [Start, Close] initialized_transport)
   \<and> sessionId (run [Start, Close] initialized_transport) = Some ''session-1''"
proof -
  let ?e1 = "example_env [initialize_request] ''uuid-1''"
  let ?r1 = "example_request ''POST'' None"
  let ?res = "fst (handlePostRequest ?e1 ?r1 [] None stateful_transport)"
  have g: "sessionIdGenerator stateful_transport \<noteq> None"
    by (simp add: stateful_transport_def new_transport_def)
  have p1: "passes_gates ?e1 ?r1 [] [initialize_request]"
    by (rule example_passes_gates)
  have i: "list_ex isInitializeRequest [initialize_request]"
    by (simp add: initialize_request_def)
  have s1: "initialized_transport = snd (handlePostRequest ?e1 ?r1 [] None stateful_transport)"
    by (simp add: initialized_transport_def run_def handleRequest_def example_request_def)
  have h: "handlePostRequest ?e1 ?r1 [] None stateful_transport = (?res, initialized_transport)"
    by (simp add: s1)
  have ok: "succeeded ?res"
    by (simp add: succeeded_def example_defs handler_defs Let_def)
  have p2: "passes_gates (example_env [initialize_request] ''uuid-2'')
              (example_request ''POST'' (Some ''session-1'')) [] [initialize_request]"
    by (rule example_passes_gates)
  have sid: "sessionId initialized_transport = Some ''session-1''"
    by (simp add: initialized_transport_eq)
  show ?thesis
    using second_initialize_rejected [where ops = "[Start, Close]" and ?a2.0 = None,
            OF g p1 i h ok refl p2 i] sid
    by simp
qed

section \<open>The gates of a POST\<close>

text \<open>
  The gates in their order: the \<^verbatim>\<open>Accept\<close> header (406), the \<^verbatim>\<open>Content-Type\<close> header
  (415), the length of the body (413), the parser (400 with code -32700, ``Parse error''
  and the cause as data); each failure leaves the transport unchanged. The length is the
  \<^verbatim>\<open>.length\<close> of the body string.
\<close>

lemma post_gate_order:
  "((case header req ''accept'' of None \<Rightarrow> True
     | Some a \<Rightarrow> \<not> str_includes a ''application/json'' \<or> \<not> str_includes a ''text/event-stream'') \<longrightarrow>
      handlePostRequest e req bodyText authInfo s =
        (Returned (error_response 406 (- 32000)
           ''Not Acceptable: Client must accept both application/json and text/event-stream''
           None), s))
   \<and> (header req ''accept'' = Some a \<and> str_includes a ''application/json''
        \<and> str_includes a ''text/event-stream''
        \<and> (case header req ''content-type'' of None \<Rightarrow> True
            | Some c \<Rightarrow> \<not> str_includes c ''application/json'') \<longrightarrow>
      handlePostRequest e req bodyText authInfo s =
        (Returned (error_response 415 (- 32000)
           ''Unsupported Media Type: Content-Type must be application/json'' None), s))
   \<and> (header req ''accept'' = Some a \<and> str_includes a ''application/json''
        \<and> str_includes a ''text/event-stream''
        \<and> header req ''content-type'' = Some c \<and> str_includes c ''application/json''
        \<and> length bodyText > MAXIMUM_MESSAGE_SIZE \<longrightarrow>
      handlePostRequest e req bodyText authInfo s =
        (Returned (error_response 413 (- 32000) ''Request too large'' None), s))
   \<and> (header req ''accept'' = Some a \<and> str_includes a ''application/json''
        \<and> str_includes a ''text/event-stream''
        \<and> header req ''content-type'' = Some c \<and> str_includes c ''application/json''
        \<and> length bodyText \<le> MAXIMUM_MESSAGE_SIZE
        \<and> JSON_parse e bodyText = Inl cause \<longrightarrow>
      handlePostRequest e req bodyText authInfo s =
        (Returned (error_response 400 (- 32700) ''Parse error'' (Some cause)), s))"
  by (auto simp: handlePostRequest_def parse_error_response_def Let_def split: option.splits
        dest: str_includes_nonempty)

text \<open>
  C7 at a failing input. The body \<open>multibyte_body\<close> is 4 MiB + 1 byte long and is no
  longer than \<open>MAXIMUM_MESSAGE_SIZE\<close> in code units: the POST passes the size gate and,
  carrying one notification, is answered with 202.
\<close>

theorem size_gate_counts_code_units:
  "utf8_length multibyte_body = 4 * 1024 * 1024 + 1
   \<and> handlePostRequest (example_env [JSONRPCNotification ''ping'' ''{}''] ''uuid-1'')
        (example_request ''POST'' None) multibyte_body None stateless_transport
      = (Returned \<lparr>status = 202, headers = [], body = Text []\<rparr>, stateless_transport)"
proof -
  let ?e = "example_env [JSONRPCNotification ''ping'' ''{}''] ''uuid-1''"
  have "passes_gates ?e (example_request ''POST'' None) multibyte_body
          [JSONRPCNotification ''ping'' ''{}'']"
    by (simp add: passes_gates_def example_env_def example_request_def MAXIMUM_MESSAGE_SIZE_def
          length_multibyte_body)
  then have "handlePostRequest ?e (example_request ''POST'' None) multibyte_body None
               stateless_transport
             = post_messages ?e (example_request ''POST'' None) None
                 [JSONRPCNotification ''ping'' ''{}''] stateless_transport"
    by (rule handlePostRequest_gates)
  also have "\<dots> = (Returned \<lparr>status = 202, headers = [], body = Text []\<rparr>, stateless_transport)"
    by (simp add: post_messages_def post_dispatch_def validateSession_def
          stateless_transport_def new_transport_def)
  finally show ?thesis by (simp add: utf8_length_multibyte_body)
qed

theorem size_gate_counts_code_units_witness:
  "fst (handlePostRequest (example_env [JSONRPCNotification ''ping'' ''{}''] ''uuid-1'')
          (example_request ''POST'' None) multibyte_body None stateless_transport)
     \<noteq> Returned (error_response 413 (- 32000) ''Request too large'' None)"
  using size_gate_counts_code_units by (simp add: error_response_def)

section \<open>Completion of a stream\<close>

text \<open>
  C3. In every reachable state, let a response or an error be sent for a request id that
  the index maps to a stream, all other request ids of that stream having a buffered
  response already. When this call to \<^verbatim>\<open>send\<close> returns, the stream has no entry in the
  stream registry, the request ids of the stream have no entry in the index and no
  buffered response, no entry of the index maps to the stream, and no resolver is pending
  for it.
\<close>

theorem send_last_response_cleans_up:
  assumes "reachable s"
      and "isJSONRPCResponse m \<or> isJSONRPCError m"
      and "message_id m = Some rid"
      and "map_of (requestToStreamMapping s) rid = Some sid"
      and "\<forall>r\<in>set (relatedIds sid s). r \<noteq> rid \<longrightarrow> map_of (requestResponseMap s) r \<noteq> None"
      and "send e m rel s = (Inr (), s')"
  shows "map_of (streamMapping s') sid = None
         \<and> (\<forall>r\<in>set (relatedIds sid s).
               map_of (requestToStreamMapping s') r = None
               \<and> map_of (requestResponseMap s') r = None)
         \<and> relatedIds sid s' = []
         \<and> map_of (pendingResponses s') sid = None"
proof -
  have "sendRelated e m rid s = (Inr (), s')"
    using assms(2,3,6) by (simp add: send_def)
  from sendRelated_cases [OF this] assms(2,4) obtain s1 where
    w: "writeToStream e sid (map_of (streamMapping s) sid) m s = Inr s1" and
    s': "s' = completeStream rid sid (map_of (streamMapping s) sid) m s1"
    by auto
  note f = writeToStream_fields [OF w]
  have ids: "relatedIds sid s1 = relatedIds sid s"
    by (simp add: relatedIds_def f)
  have ready: "list_all (\<lambda>i. map_of (AList.update rid m (requestResponseMap s1)) i \<noteq> None)
                 (relatedIds sid s1)"
    using assms(5) by (auto simp: ids f list_all_iff AList.update_conv')
  note c = completeStream_ready [OF ready, of "map_of (streamMapping s) sid", folded s']
  have a: "map_of (streamMapping s') sid = None"
    by (simp add: c AList.delete_conv)
  have b: "\<forall>r\<in>set (relatedIds sid s).
              map_of (requestToStreamMapping s') r = None \<and> map_of (requestResponseMap s') r = None"
    by (simp add: c ids map_of_fold_delete)
  have "\<forall>x\<in>set (requestToStreamMapping s'). snd x \<noteq> sid"
    by (auto simp: c set_fold_delete ids f relatedIds_def image_iff)
  then have r: "relatedIds sid s' = []"
    unfolding relatedIds_def by (fastforce simp: filter_empty_conv)
  have "consistent s" using assms(1) by (rule reachable_consistent)
  then have "enableJsonResponse s \<or> pendingResponses s = []" by (simp add: consistent_def)
  then have d: "map_of (pendingResponses s') sid = None"
    by (auto simp: c f AList.delete_conv)
  from a b r d show ?thesis by blast
qed

theorem send_last_response_cleans_up_witness:
  "send (example_env [] ''uuid-2'') (JSONRPCResponse (IdNumber 1) ''{}'') None
     initialized_transport
   = (Inr (),
      initialized_transport
        \<lparr> streamMapping := [], requestToStreamMapping := [],
          controllers := [\<lparr>closed = True,
                           chunks = [SSEEvent None (JSONRPCResponse (IdNumber 1) ''{}'')]\<rparr>] \<rparr>)
   \<and> map_of (requestToStreamMapping initialized_transport) (IdNumber 1) = Some ''uuid-1''
   \<and> relatedIds ''uuid-1'' initialized_transport = [IdNumber 1]
   \<and> relatedIds ''uuid-1''
        (snd (send (example_env [] ''uuid-2'') (JSONRPCResponse (IdNumber 1) ''{}'') None
                initialized_transport)) = []"
proof -
  have i: "map_of (requestToStreamMapping initialized_transport) (IdNumber 1) = Some ''uuid-1''"
    by (simp add: initialized_transport_eq)
  have r: "relatedIds ''uuid-1'' initialized_transport = [IdNumber 1]"
    by (simp add: initialized_transport_eq relatedIds_def)
  have l: "\<forall>r\<in>set (relatedIds ''uuid-1'' initialized_transport).
             r \<noteq> IdNumber 1 \<longrightarrow> map_of (requestResponseMap initialized_transport) r \<noteq> None"
    by (simp add: r)
  have t: "isJSONRPCResponse (JSONRPCResponse (IdNumber 1) ''{}'')
           \<or> isJSONRPCError (JSONRPCResponse (IdNumber 1) ''{}'')" by simp
  have m: "message_id (JSONRPCResponse (IdNumber 1) ''{}'') = Some (IdNumber 1)" by simp
  show ?thesis
    using send_last_response_cleans_up [OF reachable_initialized_transport t m i l send_example_eq]
      send_example_eq i r
    by simp
qed

section \<open>The response of a POST in JSON response mode\<close>




end
